theory Spec2Isabelle
  imports Main
begin

section \<open>The authentication backend of \<^verbatim>\<open>src/backend/server.js\<close>\<close>

text \<open>
  The file holds two revisions of the server. The first one (lines 1 to 262) has the
  readiness flag \<^verbatim>\<open>isConnected\<close>, the middleware \<^verbatim>\<open>checkDatabaseConnection\<close> and the
  profile routes with their own error handling; it is the one embedded here. The second
  revision (from line 263) has neither the flag nor the gate.

  The handlers are asynchronous JavaScript functions over three libraries whose code is not
  part of the repository: mongoose (the document store), bcryptjs and jsonwebtoken. Each
  handler is embedded as a function from the request and the process state to the response
  and the new state. What the libraries answer during one request is an input of the
  handler, the record \<open>env\<close>: nothing is assumed about bcryptjs and jsonwebtoken beyond
  their types, and the store is an in-memory collection whose calls may raise.
\<close>

subsection \<open>JSON bodies, exceptions, requests\<close>

datatype json = JNum nat | JStr string | JObj "(string \<times> json) list"

text \<open>A JavaScript \<^verbatim>\<open>Error\<close>, with its \<^verbatim>\<open>message\<close>.\<close>

datatype exn = Exn string

fun err_message :: "exn \<Rightarrow> string" where
  "err_message (Exn m) = m"

text \<open>\<^verbatim>\<open>res.status(c).json(b)\<close>; \<^verbatim>\<open>res.json(b)\<close> alone answers with status 200.\<close>

record response =
  status :: nat
  body :: json

text \<open>
  Of a request the handlers read the \<^verbatim>\<open>Authorization\<close> header and the fields
  \<^verbatim>\<open>name\<close>, \<^verbatim>\<open>email\<close>, \<^verbatim>\<open>password\<close> of the parsed JSON body. \<open>None\<close> is JavaScript's
  \<^verbatim>\<open>undefined\<close>; a field that is present is taken to be a string.
\<close>

record request =
  authorization :: "string option"
  body_name :: "string option"
  body_email :: "string option"
  body_password :: "string option"

subsection \<open>The user schema and the process state\<close>

text \<open>
  \<^verbatim>\<open>userSchema\<close> (lines 122 to 129). \<^verbatim>\<open>_id\<close> is the ObjectId of the document, dates are
  numbers.
\<close>

record user =
  u_id :: nat
  u_name :: string
  u_email :: string
  u_password :: string
  u_role :: string
  u_createdAt :: nat
  u_lastLogin :: "nat option"

text \<open>The calls a handler makes on the \<^verbatim>\<open>User\<close> model.\<close>

datatype store_op = FindOne | FindById | SaveNew | SaveExisting

text \<open>
  The state of the process: the flag \<^verbatim>\<open>isConnected\<close> (line 29), the calls of
  \<^verbatim>\<open>mongoose.connect\<close> that have not settled yet, the delays (in milliseconds) of the
  pending \<^verbatim>\<open>setTimeout(connectWithRetry, _)\<close>, the users collection in insertion order,
  and the list of the store calls made so far, which the code does not keep and which is
  recorded here to state which calls a handler makes.
\<close>

record state =
  isConnected :: bool
  connecting :: nat
  timers :: "nat list"
  users :: "user list"
  store_calls :: "store_op list"

text \<open>
  What the surroundings answer while one request is handled: the value read from
  \<^verbatim>\<open>mongoose.connection.readyState\<close>, the clock, \<^verbatim>\<open>process.env.JWT_SECRET\<close>, the ObjectId
  that \<^verbatim>\<open>new User\<close> draws, the functions of bcryptjs and jsonwebtoken (either may raise),
  and for each store call the exception the driver raises, if it does.
\<close>

record env =
  readyState :: nat
  Date_now :: nat
  JWT_SECRET :: "string option"
  new_ObjectId :: nat
  bcrypt_hash :: "string option \<Rightarrow> nat \<Rightarrow> exn + string"
  bcrypt_compare :: "string option \<Rightarrow> string \<Rightarrow> exn + bool"
  jwt_sign :: "nat \<Rightarrow> string option \<Rightarrow> string \<Rightarrow> exn + string"
  jwt_verify :: "string \<Rightarrow> string option \<Rightarrow> exn + nat option"
  store_error :: "store_op \<Rightarrow> exn option"

subsection \<open>The store, as the handlers use it\<close>

definition called :: "store_op \<Rightarrow> state \<Rightarrow> state" where
  "called c s = s\<lparr>store_calls := store_calls s @ [c]\<rparr>"

text \<open>
  \<^verbatim>\<open>User.findOne({ email })\<close>: the first document with that email. Every stored document
  has an email, so the query of an undefined email finds none.
\<close>

definition User_findOne :: "env \<Rightarrow> string option \<Rightarrow> state \<Rightarrow> (exn + user option) \<times> state" where
  "User_findOne ev em s =
     (case store_error ev FindOne of
        Some e \<Rightarrow> (Inl e, called FindOne s)
      | None \<Rightarrow> (Inr (find (\<lambda>u. Some (u_email u) = em) (users s)), called FindOne s))"

text \<open>\<^verbatim>\<open>User.findById(req.userId)\<close>.\<close>

definition User_findById :: "env \<Rightarrow> nat option \<Rightarrow> state \<Rightarrow> (exn + user option) \<times> state" where
  "User_findById ev i s =
     (case store_error ev FindById of
        Some e \<Rightarrow> (Inl e, called FindById s)
      | None \<Rightarrow> (Inr (find (\<lambda>u. Some (u_id u) = i) (users s)), called FindById s))"

text \<open>
  \<^verbatim>\<open>new User({ name, email, password })\<close>: the fields may still be undefined; the schema
  defaults fill \<^verbatim>\<open>role\<close> and \<^verbatim>\<open>createdAt\<close>, and \<^verbatim>\<open>lastLogin\<close> has no default.
\<close>

record draft =
  d_id :: nat
  d_name :: "string option"
  d_email :: "string option"
  d_password :: "string option"
  d_role :: string
  d_createdAt :: nat

definition new_User :: "env \<Rightarrow> string option \<Rightarrow> string option \<Rightarrow> string option \<Rightarrow> draft" where
  "new_User ev nm em pw =
     \<lparr>d_id = new_ObjectId ev, d_name = nm, d_email = em, d_password = pw,
      d_role = ''member'', d_createdAt = Date_now ev\<rparr>"

text \<open>\<^verbatim>\<open>required: true\<close> on a string path refuses the undefined and the empty string.\<close>

definition required :: "string option \<Rightarrow> bool" where
  "required v = (case v of None \<Rightarrow> False | Some x \<Rightarrow> x \<noteq> [])"

text \<open>
  \<^verbatim>\<open>newUser.save()\<close>: the document is validated against the schema before anything is
  sent; then the driver may raise; then the unique indexes (on \<^verbatim>\<open>_id\<close>, and on
  \<^verbatim>\<open>email\<close> by \<^verbatim>\<open>unique: true\<close>) refuse a duplicate; otherwise the document is appended
  to the collection. The texts of the library's exceptions are abbreviated.
\<close>

definition save_new :: "env \<Rightarrow> draft \<Rightarrow> state \<Rightarrow> (exn + user) \<times> state" where
  "save_new ev d s =
     (let s' = called SaveNew s in
      if \<not> (required (d_name d) \<and> required (d_email d) \<and> required (d_password d))
      then (Inl (Exn ''User validation failed''), s')
      else
        case store_error ev SaveNew of
          Some e \<Rightarrow> (Inl e, s')
        | None \<Rightarrow>
            let u = \<lparr>u_id = d_id d, u_name = the (d_name d), u_email = the (d_email d),
                     u_password = the (d_password d), u_role = d_role d,
                     u_createdAt = d_createdAt d, u_lastLogin = None\<rparr>
            in if list_ex (\<lambda>v. u_id v = u_id u \<or> u_email v = u_email u) (users s)
               then (Inl (Exn ''E11000 duplicate key error''), s')
               else (Inr u, s'\<lparr>users := users s @ [u]\<rparr>))"

text \<open>
  \<^verbatim>\<open>user.save()\<close> on a document that was loaded by \<^verbatim>\<open>findById\<close> and then assigned to.
  The update goes to one document, the first with that \<^verbatim>\<open>_id\<close>, which takes the values
  of the assigned one; the driver may raise, and the unique index refuses an email that was
  changed to one already in the collection.
\<close>

fun updateOne :: "nat \<Rightarrow> user \<Rightarrow> user list \<Rightarrow> user list" where
  "updateOne i u [] = []"
| "updateOne i u (v # vs) = (if u_id v = i then u # vs else v # updateOne i u vs)"

definition save_existing :: "env \<Rightarrow> user \<Rightarrow> user \<Rightarrow> state \<Rightarrow> (exn + user) \<times> state" where
  "save_existing ev loaded u s =
     (let s' = called SaveExisting s in
      case store_error ev SaveExisting of
        Some e \<Rightarrow> (Inl e, s')
      | None \<Rightarrow>
          if u_email u \<noteq> u_email loaded \<and> list_ex (\<lambda>v. u_email v = u_email u) (users s)
          then (Inl (Exn ''E11000 duplicate key error''), s')
          else (Inr u, s'\<lparr>users := updateOne (u_id loaded) u (users s)\<rparr>))"

subsection \<open>The connection gate (lines 104 to 113)\<close>

text \<open>A middleware answers, or calls \<^verbatim>\<open>next()\<close>, which is \<open>None\<close>.\<close>

definition checkDatabaseConnection :: "env \<Rightarrow> state \<Rightarrow> response option" where
  "checkDatabaseConnection ev s =
     (if \<not> isConnected s \<or> readyState ev \<noteq> 1
      then Some \<lparr>status = 503, body = JObj
             [(''message'', JStr ''Database connection not ready. Please try again in a few seconds.''),
              (''error'', JStr ''Database connection not established''),
              (''state'', JNum (readyState ev))]\<rparr>
      else None)"

subsection \<open>Registration (lines 133 to 157) and login (lines 160 to 183)\<close>

definition register_failed :: "exn \<Rightarrow> response" where
  "register_failed e = \<lparr>status = 500, body = JObj
     [(''message'', JStr ''Error registering user''), (''error'', JStr (err_message e))]\<rparr>"

definition user_json :: "user \<Rightarrow> json" where
  "user_json u = JObj [(''id'', JNum (u_id u)), (''name'', JStr (u_name u)),
                       (''email'', JStr (u_email u))]"

definition register_handler :: "env \<Rightarrow> request \<Rightarrow> state \<Rightarrow> response \<times> state" where
  "register_handler ev req s =
     (case User_findOne ev (body_email req) s of
        (Inl e, s1) \<Rightarrow> (register_failed e, s1)
      | (Inr (Some existingUser), s1) \<Rightarrow>
          (\<lparr>status = 400, body = JObj [(''message'', JStr ''User already exists'')]\<rparr>, s1)
      | (Inr None, s1) \<Rightarrow>
          (case bcrypt_hash ev (body_password req) 10 of
             Inl e \<Rightarrow> (register_failed e, s1)
           | Inr hashedPassword \<Rightarrow>
               (case save_new ev (new_User ev (body_name req) (body_email req) (Some hashedPassword)) s1 of
                  (Inl e, s2) \<Rightarrow> (register_failed e, s2)
                | (Inr newUser, s2) \<Rightarrow>
                    (case jwt_sign ev (u_id newUser) (JWT_SECRET ev) ''1d'' of
                       Inl e \<Rightarrow> (register_failed e, s2)
                     | Inr token \<Rightarrow>
                         (\<lparr>status = 201, body = JObj
                            [(''message'', JStr ''User registered successfully''),
                             (''token'', JStr token),
                             (''user'', user_json newUser)]\<rparr>, s2)))))"

definition post_register :: "env \<Rightarrow> request \<Rightarrow> state \<Rightarrow> response \<times> state" where
  "post_register ev req s =
     (case checkDatabaseConnection ev s of
        Some r \<Rightarrow> (r, s)
      | None \<Rightarrow> register_handler ev req s)"

definition login_failed :: "exn \<Rightarrow> response" where
  "login_failed e = \<lparr>status = 500, body = JObj
     [(''message'', JStr ''Login failed''), (''error'', JStr (err_message e))]\<rparr>"

definition login_handler :: "env \<Rightarrow> request \<Rightarrow> state \<Rightarrow> response \<times> state" where
  "login_handler ev req s =
     (case User_findOne ev (body_email req) s of
        (Inl e, s1) \<Rightarrow> (login_failed e, s1)
      | (Inr None, s1) \<Rightarrow>
          (\<lparr>status = 404, body = JObj [(''message'', JStr ''User not found'')]\<rparr>, s1)
      | (Inr (Some u), s1) \<Rightarrow>
          (case bcrypt_compare ev (body_password req) (u_password u) of
             Inl e \<Rightarrow> (login_failed e, s1)
           | Inr isMatch \<Rightarrow>
               if \<not> isMatch
               then (\<lparr>status = 401, body = JObj [(''message'', JStr ''Invalid credentials'')]\<rparr>, s1)
               else
                 (case jwt_sign ev (u_id u) (JWT_SECRET ev) ''1d'' of
                    Inl e \<Rightarrow> (login_failed e, s1)
                  | Inr token \<Rightarrow>
                      (\<lparr>status = 200, body = JObj
                         [(''message'', JStr ''Login successful''),
                          (''token'', JStr token),
                          (''user'', user_json u)]\<rparr>, s1))))"

definition post_login :: "env \<Rightarrow> request \<Rightarrow> state \<Rightarrow> response \<times> state" where
  "post_login ev req s =
     (case checkDatabaseConnection ev s of
        Some r \<Rightarrow> (r, s)
      | None \<Rightarrow> login_handler ev req s)"

text \<open>The value of a field of a JSON object.\<close>

fun field :: "string \<Rightarrow> json \<Rightarrow> json option" where
  "field k (JObj kvs) = map_of kvs k"
| "field k _ = None"

subsection \<open>The token gate (lines 247 to 258)\<close>

text \<open>
  JavaScript's \<^verbatim>\<open>h.split(" ")\<close>: the pieces of \<open>h\<close> between single spaces; the empty
  string gives one empty piece.
\<close>

fun split_space :: "string \<Rightarrow> string list" where
  "split_space [] = [[]]"
| "split_space (c # cs) =
     (if c = CHR '' '' then [] # split_space cs
      else (case split_space cs of
              w # ws \<Rightarrow> (c # w) # ws
            | [] \<Rightarrow> [[c]]))"

text \<open>\<^verbatim>\<open>req.headers.authorization?.split(" ")[1]\<close>, which is undefined without a header or
  without a second piece.\<close>

definition header_token :: "request \<Rightarrow> string option" where
  "header_token req =
     (case authorization req of
        None \<Rightarrow> None
      | Some h \<Rightarrow> (case split_space h of
                     p0 # p1 # ps \<Rightarrow> Some p1
                   | _ \<Rightarrow> None))"

text \<open>\<^verbatim>\<open>!token\<close> holds of the undefined and of the empty string.\<close>

definition falsy :: "string option \<Rightarrow> bool" where
  "falsy v = (case v of None \<Rightarrow> True | Some x \<Rightarrow> x = [])"

text \<open>
  \<^verbatim>\<open>verifyToken\<close> answers (\<open>Inl\<close>), or sets \<^verbatim>\<open>req.userId = decoded.id\<close> and calls
  \<^verbatim>\<open>next()\<close> (\<open>Inr\<close> of that id, which is undefined when the payload has none).
\<close>

definition verifyToken :: "env \<Rightarrow> request \<Rightarrow> response + nat option" where
  "verifyToken ev req =
     (if falsy (header_token req)
      then Inl \<lparr>status = 401, body = JObj [(''message'', JStr ''Access Denied'')]\<rparr>
      else (case jwt_verify ev (the (header_token req)) (JWT_SECRET ev) of
              Inl e \<Rightarrow> Inl \<lparr>status = 400, body = JObj [(''message'', JStr ''Invalid Token'')]\<rparr>
            | Inr decoded_id \<Rightarrow> Inr decoded_id))"

subsection \<open>The profile routes (lines 186 to 244)\<close>

text \<open>A document loaded with \<^verbatim>\<open>.select("-password")\<close>: the password path is left out.\<close>

record projected =
  p_id :: nat
  p_name :: string
  p_email :: string
  p_role :: string
  p_createdAt :: nat
  p_lastLogin :: "nat option"

definition select_minus_password :: "user \<Rightarrow> projected" where
  "select_minus_password u =
     \<lparr>p_id = u_id u, p_name = u_name u, p_email = u_email u, p_role = u_role u,
      p_createdAt = u_createdAt u, p_lastLogin = u_lastLogin u\<rparr>"

text \<open>\<^verbatim>\<open>role || "member"\<close>: the empty string is falsy.\<close>

definition role_or_member :: "string \<Rightarrow> string" where
  "role_or_member r = (if r = [] then ''member'' else r)"

definition not_found :: response where
  "not_found = \<lparr>status = 404, body = JObj [(''message'', JStr ''User not found'')]\<rparr>"

definition get_profile_handler :: "env \<Rightarrow> nat option \<Rightarrow> state \<Rightarrow> response \<times> state" where
  "get_profile_handler ev userId s =
     (case User_findById ev userId s of
        (Inl e, s1) \<Rightarrow>
          (\<lparr>status = 500, body = JObj [(''message'', JStr ''Error retrieving profile'')]\<rparr>, s1)
      | (Inr None, s1) \<Rightarrow> (not_found, s1)
      | (Inr (Some u), s1) \<Rightarrow>
          (let usr = select_minus_password u in
           (\<lparr>status = 200, body = JObj
              [(''message'', JStr ''Profile retrieved successfully''),
               (''profile'', JObj
                  [(''id'', JNum (p_id usr)),
                   (''name'', JStr (p_name usr)),
                   (''email'', JStr (p_email usr)),
                   (''role'', JStr (role_or_member (p_role usr))),
                   (''createdAt'', JNum (p_createdAt usr)),
                   (''lastLogin'', JNum (case p_lastLogin usr of
                                           None \<Rightarrow> Date_now ev
                                         | Some t \<Rightarrow> t))])]\<rparr>, s1)))"

definition get_profile :: "env \<Rightarrow> request \<Rightarrow> state \<Rightarrow> response \<times> state" where
  "get_profile ev req s =
     (case verifyToken ev req of
        Inl r \<Rightarrow> (r, s)
      | Inr userId \<Rightarrow> get_profile_handler ev userId s)"

text \<open>\<^verbatim>\<open>if (name) user.name = name; if (email) user.email = email;\<close>\<close>

definition assign_fields :: "string option \<Rightarrow> string option \<Rightarrow> user \<Rightarrow> user" where
  "assign_fields nm em u =
     (let u1 = (if falsy nm then u else u\<lparr>u_name := the nm\<rparr>)
      in (if falsy em then u1 else u1\<lparr>u_email := the em\<rparr>))"

definition put_profile_handler :: "env \<Rightarrow> request \<Rightarrow> nat option \<Rightarrow> state \<Rightarrow> response \<times> state" where
  "put_profile_handler ev req userId s =
     (case User_findById ev userId s of
        (Inl e, s1) \<Rightarrow>
          (\<lparr>status = 500, body = JObj [(''message'', JStr ''Error updating profile'')]\<rparr>, s1)
      | (Inr None, s1) \<Rightarrow> (not_found, s1)
      | (Inr (Some u), s1) \<Rightarrow>
          (case save_existing ev u (assign_fields (body_name req) (body_email req) u) s1 of
             (Inl e, s2) \<Rightarrow>
               (\<lparr>status = 500, body = JObj [(''message'', JStr ''Error updating profile'')]\<rparr>, s2)
           | (Inr usr, s2) \<Rightarrow>
               (\<lparr>status = 200, body = JObj
                  [(''message'', JStr ''Profile updated successfully''),
                   (''profile'', JObj
                      [(''id'', JNum (u_id usr)),
                       (''name'', JStr (u_name usr)),
                       (''email'', JStr (u_email usr)),
                       (''role'', JStr (role_or_member (u_role usr))),
                       (''updatedAt'', JNum (Date_now ev))])]\<rparr>, s2)))"

definition put_profile :: "env \<Rightarrow> request \<Rightarrow> state \<Rightarrow> response \<times> state" where
  "put_profile ev req s =
     (case verifyToken ev req of
        Inl r \<Rightarrow> (r, s)
      | Inr userId \<Rightarrow> put_profile_handler ev req userId s)"


subsection \<open>The connection lifecycle (lines 31 to 101)\<close>

text \<open>
  \<^verbatim>\<open>connectWithRetry\<close> is asynchronous: a call runs up to \<^verbatim>\<open>await mongoose.connect\<close>,
  and the rest runs when the connection attempt settles. The call is
  \<open>connectWithRetry_call\<close>; \<open>connect_resolved\<close> is the rest of the \<^verbatim>\<open>try\<close> block and
  \<open>connect_rejected\<close> the \<^verbatim>\<open>catch\<close> block, which schedules the next call with
  \<^verbatim>\<open>setTimeout(connectWithRetry, 5000)\<close>.
\<close>

definition connectWithRetry_call :: "state \<Rightarrow> state" where
  "connectWithRetry_call s = s\<lparr>connecting := connecting s + 1\<rparr>"

definition connect_resolved :: "state \<Rightarrow> state" where
  "connect_resolved s = s\<lparr>connecting := connecting s - 1, isConnected := True\<rparr>"

definition connect_rejected :: "exn \<Rightarrow> state \<Rightarrow> state" where
  "connect_rejected e s =
     s\<lparr>connecting := connecting s - 1, isConnected := False, timers := timers s @ [5000]\<rparr>"

text \<open>The listeners on \<^verbatim>\<open>mongoose.connection\<close> (lines 83 to 101).\<close>

definition on_connected :: "state \<Rightarrow> state" where
  "on_connected s = s\<lparr>isConnected := True\<rparr>"

definition on_error :: "exn \<Rightarrow> state \<Rightarrow> state" where
  "on_error e s = s\<lparr>isConnected := False\<rparr>"

definition on_disconnected :: "state \<Rightarrow> state" where
  "on_disconnected s = connectWithRetry_call (s\<lparr>isConnected := False\<rparr>)"

text \<open>
  What can happen to the gateway. An attempt settles only while one is under way, and a
  timer fires only while one is pending (the oldest first: all have the same delay); then
  \<^verbatim>\<open>connectWithRetry\<close> is called. An event that cannot happen gives \<open>None\<close>.
\<close>

datatype event =
  ConnectResolved | ConnectRejected exn | TimerFired
| Connected | ConnectionError exn | Disconnected

fun step :: "event \<Rightarrow> state \<Rightarrow> state option" where
  "step ConnectResolved s = (if connecting s = 0 then None else Some (connect_resolved s))"
| "step (ConnectRejected e) s = (if connecting s = 0 then None else Some (connect_rejected e s))"
| "step TimerFired s =
     (case timers s of
        [] \<Rightarrow> None
      | d # ds \<Rightarrow> Some (connectWithRetry_call (s\<lparr>timers := ds\<rparr>)))"
| "step Connected s = Some (on_connected s)"
| "step (ConnectionError e) s = Some (on_error e s)"
| "step Disconnected s = Some (on_disconnected s)"

fun run :: "event list \<Rightarrow> state \<Rightarrow> state option" where
  "run [] s = Some s"
| "run (ev # evs) s = (case step ev s of None \<Rightarrow> None | Some s' \<Rightarrow> run evs s')"

text \<open>The process after start-up: \<^verbatim>\<open>isConnected = false\<close> (line 29) and the first call of
  \<^verbatim>\<open>connectWithRetry\<close> (line 80), over a store that holds \<open>us\<close>.\<close>

definition startup :: "user list \<Rightarrow> state" where
  "startup us = connectWithRetry_call
     \<lparr>isConnected = False, connecting = 0, timers = [], users = us, store_calls = []\<rparr>"

text \<open>A connection attempt is under way or scheduled.\<close>

definition retry_live :: "state \<Rightarrow> bool" where
  "retry_live s = (0 < connecting s \<or> timers s \<noteq> [])"

text \<open>The event of a connection attempt that succeeds.\<close>

fun is_resolved_event :: "event \<Rightarrow> bool" where
  "is_resolved_event ConnectResolved = True"
| "is_resolved_event _ = False"

definition refused :: exn where
  "refused = Exn ''connect ECONNREFUSED''"

text \<open>\<open>n\<close> failed attempts in a row, each followed by its timer.\<close>

fun failures :: "exn \<Rightarrow> nat \<Rightarrow> event list" where
  "failures e 0 = []"
| "failures e (Suc n) = ConnectRejected e # TimerFired # failures e n"

subsection \<open>The Token Service of the specification\<close>

text \<open>
  Modelled from the spec: the token lifetime. The code passes \<^verbatim>\<open>expiresIn: "1d"\<close> to
  \<^verbatim>\<open>jwt.sign\<close>, and what jsonwebtoken makes of it is not in the repository; the
  specification says that a token expires 24 hours after issuance. Times are in seconds.
\<close>

definition token_lifetime :: nat where
  "token_lifetime = 24 * 60 * 60"

text \<open>
  Modelled from the spec: the token. "A signed assertion of \<^verbatim>\<open>{userId, issuedAt, expiry}\<close>";
  what arrives at the service may also be structurally corrupt, which is \<open>Corrupt\<close>. The
  signature scheme is a parameter \<open>mac\<close> of the service, from the key and the three
  asserted values to a signature.
\<close>

datatype 'sg token = Corrupt string | Token nat nat nat 'sg

text \<open>Modelled from the spec: the result of \<^verbatim>\<open>verify\<close>, "\<^verbatim>\<open>userId | Invalid\<close>".\<close>

datatype verdict = Valid nat | Invalid

text \<open>
  Modelled from the spec: \<^verbatim>\<open>issue(userId) -> token\<close> "produces a signed token embedding
  \<^verbatim>\<open>userId\<close> and an expiry 24 hours from issuance".
\<close>

definition issue :: "('k \<Rightarrow> nat \<times> nat \<times> nat \<Rightarrow> 'sg) \<Rightarrow> 'k \<Rightarrow> nat \<Rightarrow> nat \<Rightarrow> 'sg token" where
  "issue mac key now userId =
     Token userId now (now + token_lifetime) (mac key (userId, now, now + token_lifetime))"

text \<open>
  Modelled from the spec: \<^verbatim>\<open>verify(token) -> userId | Invalid\<close> "checks signature and
  expiry; returns the embedded \<^verbatim>\<open>userId\<close> only if both are valid. Any signature mismatch,
  structural corruption, or expiry in the past yields \<^verbatim>\<open>Invalid\<close>".
\<close>

fun verify :: "('k \<Rightarrow> nat \<times> nat \<times> nat \<Rightarrow> 'sg) \<Rightarrow> 'k \<Rightarrow> nat \<Rightarrow> 'sg token \<Rightarrow> verdict" where
  "verify mac key now (Corrupt x) = Invalid"
| "verify mac key now (Token userId issuedAt expiry sg) =
     (if sg \<noteq> mac key (userId, issuedAt, expiry) then Invalid
      else if expiry < now then Invalid
      else Valid userId)"

subsection \<open>Comparing a stored document before and after\<close>

text \<open>
  \<open>same_but nm em v v'\<close>: the documents \<open>v\<close> and \<open>v'\<close> agree on every field, except
  possibly on the name when \<open>nm\<close> holds and on the email when \<open>em\<close> holds.
\<close>

definition same_but :: "bool \<Rightarrow> bool \<Rightarrow> user \<Rightarrow> user \<Rightarrow> bool" where
  "same_but nm em v v' =
     (u_id v' = u_id v \<and> u_password v' = u_password v \<and> u_role v' = u_role v
      \<and> u_createdAt v' = u_createdAt v \<and> u_lastLogin v' = u_lastLogin v
      \<and> (\<not> nm \<longrightarrow> u_name v' = u_name v) \<and> (\<not> em \<longrightarrow> u_email v' = u_email v))"

subsection \<open>A concrete environment\<close>

text \<open>
  Stand-ins for the two libraries, to run the handlers on concrete requests: a hash that
  prefixes the plaintext, and a token that writes the id in unary after the secret. They
  raise where the libraries do (no plaintext, no secret).
\<close>

definition demo_hash :: "string option \<Rightarrow> nat \<Rightarrow> exn + string" where
  "demo_hash pw cost =
     (case pw of
        None \<Rightarrow> Inl (Exn ''Illegal arguments: undefined, number'')
      | Some p \<Rightarrow> Inr (''$2a$'' @ p))"

definition demo_compare :: "string option \<Rightarrow> string \<Rightarrow> exn + bool" where
  "demo_compare pw h =
     (case pw of
        None \<Rightarrow> Inl (Exn ''Illegal arguments: undefined, string'')
      | Some p \<Rightarrow> Inr (h = ''$2a$'' @ p))"

definition demo_sign :: "nat \<Rightarrow> string option \<Rightarrow> string \<Rightarrow> exn + string" where
  "demo_sign i secret expiresIn =
     (case secret of
        None \<Rightarrow> Inl (Exn ''secretOrPrivateKey must have a value'')
      | Some k \<Rightarrow> Inr (k @ ''.'' @ replicate i (CHR ''i'')))"

definition demo_verify :: "string \<Rightarrow> string option \<Rightarrow> exn + nat option" where
  "demo_verify tok secret =
     (case secret of
        None \<Rightarrow> Inl (Exn ''secret or public key must be provided'')
      | Some k \<Rightarrow>
          if take (length k + 1) tok = k @ ''.''
             \<and> list_all (\<lambda>c. c = CHR ''i'') (drop (length k + 1) tok)
          then Inr (Some (length tok - (length k + 1)))
          else Inl (Exn ''invalid token''))"

definition demo_env :: env where
  "demo_env = \<lparr>readyState = 1, Date_now = 1000, JWT_SECRET = Some ''k'', new_ObjectId = 2,
     bcrypt_hash = demo_hash, bcrypt_compare = demo_compare,
     jwt_sign = demo_sign, jwt_verify = demo_verify, store_error = (\<lambda>c. None)\<rparr>"

definition alice :: user where
  "alice = \<lparr>u_id = 1, u_name = ''Alice'', u_email = ''a@x'', u_password = ''$2a$pw'',
     u_role = ''member'', u_createdAt = 5, u_lastLogin = None\<rparr>"

definition ready_state :: "user list \<Rightarrow> state" where
  "ready_state us =
     \<lparr>isConnected = True, connecting = 0, timers = [], users = us, store_calls = []\<rparr>"

definition unready_state :: "user list \<Rightarrow> state" where
  "unready_state us =
     \<lparr>isConnected = False, connecting = 1, timers = [], users = us, store_calls = []\<rparr>"

definition bob_request :: request where
  "bob_request = \<lparr>authorization = None, body_name = Some ''Bob'',
     body_email = Some ''b@x'', body_password = Some ''s3''\<rparr>"

definition alice_request :: request where
  "alice_request = \<lparr>authorization = None, body_name = Some ''Alice again'',
     body_email = Some ''a@x'', body_password = Some ''pw''\<rparr>"

definition with_header :: "string \<Rightarrow> request" where
  "with_header h = \<lparr>authorization = Some h, body_name = None,
     body_email = None, body_password = None\<rparr>"


definition rename_request :: request where
  "rename_request = \<lparr>authorization = Some ''Bearer k.i'', body_name = Some ''X'',
     body_email = None, body_password = None\<rparr>"

definition failing_env :: "store_op \<Rightarrow> env" where
  "failing_env c = demo_env\<lparr>store_error :=
     (\<lambda>x. if x = c then Some (Exn ''buffering timed out'') else None)\<rparr>"

definition alice_login :: request where
  "alice_login = \<lparr>authorization = None, body_name = None,
     body_email = Some ''a@x'', body_password = Some ''pw''\<rparr>"

definition demo_mac :: "nat \<Rightarrow> nat \<times> nat \<times> nat \<Rightarrow> nat" where
  "demo_mac key claims = (case claims of (u, iat, ex) \<Rightarrow> key + u + iat + ex)"

section \<open>The connection gate\<close>

text \<open>
  C4. Whenever the readiness flag \<^verbatim>\<open>isConnected\<close> is false, \<^verbatim>\<open>POST /register\<close> and
  \<^verbatim>\<open>POST /login\<close> answer 503 with a message and with the current \<^verbatim>\<open>readyState\<close> in the
  field \<^verbatim>\<open>state\<close>, and the state of the process is left as it was: no call on the store is
  made (the list of store calls is the same) and the collection is untouched.
\<close>

theorem gate_closed_503:
  assumes "\<not> isConnected s"
  shows "status (fst (post_register ev req s)) = 503
       \<and> field ''state'' (body (fst (post_register ev req s))) = Some (JNum (readyState ev))
       \<and> field ''message'' (body (fst (post_register ev req s))) \<noteq> None
       \<and> snd (post_register ev req s) = s
       \<and> store_calls (snd (post_register ev req s)) = store_calls s
       \<and> status (fst (post_login ev req s)) = 503
       \<and> field ''state'' (body (fst (post_login ev req s))) = Some (JNum (readyState ev))
       \<and> field ''message'' (body (fst (post_login ev req s))) \<noteq> None
       \<and> snd (post_login ev req s) = s
       \<and> store_calls (snd (post_login ev req s)) = store_calls s"
  using assms by (simp add: post_register_def post_login_def checkDatabaseConnection_def)

theorem gate_closed_503_witness:
  "\<not> isConnected (unready_state [alice])
   \<and> status (fst (post_register demo_env bob_request (unready_state [alice]))) = 503
   \<and> snd (post_register demo_env bob_request (unready_state [alice])) = unready_state [alice]
   \<and> status (fst (post_login demo_env bob_request (unready_state [alice]))) = 503
   \<and> snd (post_login demo_env bob_request (unready_state [alice])) = unready_state [alice]"
proof -
  have closed: "\<not> isConnected (unready_state [alice])"
    by (simp add: unready_state_def)
  from gate_closed_503 [OF closed, of demo_env bob_request] closed
  show ?thesis by simp
qed

section \<open>Registration and login\<close>

lemma find_email_Some:
  "\<exists>u\<in>set us. u_email u = e \<Longrightarrow> \<exists>u. find (\<lambda>u. u_email u = e) us = Some u"
  by (induction us) auto

lemma find_email_None:
  "\<forall>u\<in>set us. u_email u \<noteq> e \<Longrightarrow> find (\<lambda>u. u_email u = e) us = None"
  by (induction us) auto

lemma find_email_append_new:
  "\<forall>u\<in>set us. u_email u \<noteq> e \<Longrightarrow> u_email v = e \<Longrightarrow>
   find (\<lambda>u. u_email u = e) (us @ [v]) = Some v"
  by (induction us) auto

lemma list_ex_fresh:
  "\<forall>u\<in>set us. u_email u \<noteq> e \<and> u_id u \<noteq> i \<Longrightarrow>
   \<not> list_ex (\<lambda>v. u_id v = i \<or> u_email v = e) us"
  by (induction us) auto

lemma demo_sign_total: "\<forall>i. \<exists>t. demo_sign i (Some ''k'') ''1d'' = Inr t"
  by (simp add: demo_sign_def)

lemma demo_verify_sign:
  "\<forall>i t. demo_sign i (Some ''k'') ''1d'' = Inr t \<or> demo_sign i (Some ''k'') ''1d'' = Inr t
         \<longrightarrow> demo_verify t (Some ''k'') = Inr (Some i)"
  by (auto simp add: demo_sign_def demo_verify_def list_all_iff)

text \<open>
  C1, as it stands, fails: in a state whose collection has no user with the email, but
  whose readiness flag is false, the registration is answered 503 by the gate and nothing
  is registered.
\<close>

theorem register_unready_counterexample:
  "body_email bob_request = Some ''b@x''
   \<and> map u_email (users (unready_state [alice])) = [''a@x'']
   \<and> status (fst (post_register demo_env bob_request (unready_state [alice]))) = 503
   \<and> status (fst (post_register demo_env bob_request (unready_state [alice]))) \<noteq> 201
   \<and> users (snd (post_register demo_env bob_request (unready_state [alice]))) = [alice]"
  by (simp add: post_register_def checkDatabaseConnection_def unready_state_def
      bob_request_def alice_def)

text \<open>
  C1, amended. Take a state whose readiness flag is true and whose collection has no user
  with the email \<open>e\<close> (nor with the ObjectId that the new document draws), a registration
  with a non-empty name, the non-empty email \<open>e\<close> and the password \<open>p\<close>, and then a login
  with \<open>e\<close> and \<open>p\<close>. Let the connection be ready (\<^verbatim>\<open>readyState\<close> 1) at both requests, let
  the store calls not raise, let bcryptjs hash \<open>p\<close> to a non-empty \<open>h\<close> and accept \<open>p\<close>
  against \<open>h\<close>, and let jsonwebtoken sign under the secret and verify a token it signed
  for an id to that id. Then the registration answers 201 and the login 200, each with
  a token and the same user, the new user is the one appended to the collection, and
  both tokens verify to its id.
\<close>

theorem register_then_login:
  assumes ready: "isConnected s" "readyState ev1 = 1" "readyState ev2 = 1"
    and fresh: "\<forall>u\<in>set (users s). u_email u \<noteq> e \<and> u_id u \<noteq> new_ObjectId ev1"
    and reg_body: "body_name req1 = Some nm" "body_email req1 = Some e"
                  "body_password req1 = Some p" "nm \<noteq> []" "e \<noteq> []"
    and login_body: "body_email req2 = Some e" "body_password req2 = Some p"
    and store_ok: "store_error ev1 FindOne = None" "store_error ev1 SaveNew = None"
                  "store_error ev2 FindOne = None"
    and secret: "JWT_SECRET ev1 = k" "JWT_SECRET ev2 = k"
    and hash: "bcrypt_hash ev1 (Some p) 10 = Inr h" "h \<noteq> []"
    and compare: "bcrypt_compare ev2 (Some p) h = Inr True"
    and sign: "\<forall>i. \<exists>t. jwt_sign ev1 i k ''1d'' = Inr t" "\<forall>i. \<exists>t. jwt_sign ev2 i k ''1d'' = Inr t"
    and verify: "\<forall>i t. jwt_sign ev1 i k ''1d'' = Inr t \<or> jwt_sign ev2 i k ''1d'' = Inr t
                   \<longrightarrow> jwt_verify ev3 t k = Inr (Some i)"
  shows "\<exists>t1 t2 s1 u.
           post_register ev1 req1 s =
             (\<lparr>status = 201, body = JObj
                [(''message'', JStr ''User registered successfully''),
                 (''token'', JStr t1), (''user'', user_json u)]\<rparr>, s1)
         \<and> fst (post_login ev2 req2 s1) =
             \<lparr>status = 200, body = JObj
                [(''message'', JStr ''Login successful''),
                 (''token'', JStr t2), (''user'', user_json u)]\<rparr>
         \<and> u_id u = new_ObjectId ev1 \<and> u_name u = nm \<and> u_email u = e
         \<and> users s1 = users s @ [u]
         \<and> jwt_verify ev3 t1 k = Inr (Some (u_id u))
         \<and> jwt_verify ev3 t2 k = Inr (Some (u_id u))"
proof -
  define u where "u = \<lparr>u_id = new_ObjectId ev1, u_name = nm, u_email = e, u_password = h,
     u_role = ''member'', u_createdAt = Date_now ev1, u_lastLogin = None\<rparr>"
  define s1 where "s1 = (called SaveNew (called FindOne s))\<lparr>users := users s @ [u]\<rparr>"
  from sign obtain t1 t2
    where t1: "jwt_sign ev1 (new_ObjectId ev1) k ''1d'' = Inr t1"
      and t2: "jwt_sign ev2 (new_ObjectId ev1) k ''1d'' = Inr t2" by blast
  have none: "find (\<lambda>u. u_email u = e) (users s) = None"
    using fresh by (simp add: find_email_None)
  have nodup: "\<not> list_ex (\<lambda>v. u_id v = new_ObjectId ev1 \<or> u_email v = e) (users s)"
    using fresh by (rule list_ex_fresh)
  have saved: "save_new ev1 (new_User ev1 (Some nm) (Some e) (Some h)) (called FindOne s) = (Inr u, s1)"
    using store_ok reg_body hash(2) nodup
    by (simp add: save_new_def new_User_def required_def called_def u_def s1_def Let_def)
  have reg: "post_register ev1 req1 s =
             (\<lparr>status = 201, body = JObj
                [(''message'', JStr ''User registered successfully''),
                 (''token'', JStr t1), (''user'', user_json u)]\<rparr>, s1)"
    using ready store_ok none hash(1) saved t1 secret reg_body
    by (simp add: post_register_def checkDatabaseConnection_def register_handler_def
        User_findOne_def u_def)
  have found: "find (\<lambda>u. u_email u = e) (users s1) = Some u"
    using fresh by (simp add: s1_def find_email_append_new u_def)
  have conn: "isConnected s1" using ready by (simp add: s1_def called_def)
  have login: "fst (post_login ev2 req2 s1) =
             \<lparr>status = 200, body = JObj
                [(''message'', JStr ''Login successful''),
                 (''token'', JStr t2), (''user'', user_json u)]\<rparr>"
    using ready conn store_ok found compare t2 secret login_body
    by (simp add: post_login_def checkDatabaseConnection_def login_handler_def
        User_findOne_def u_def)
  have v1: "jwt_verify ev3 t1 k = Inr (Some (u_id u))"
    using verify t1 by (simp add: u_def)
  have v2: "jwt_verify ev3 t2 k = Inr (Some (u_id u))"
    using verify t2 by (simp add: u_def)
  have "u_id u = new_ObjectId ev1 \<and> u_name u = nm \<and> u_email u = e \<and> users s1 = users s @ [u]"
    by (simp add: u_def s1_def)
  with reg login v1 v2 show ?thesis by blast
qed

theorem register_then_login_witness:
  "\<exists>t1 t2 s1 u.
     post_register demo_env bob_request (ready_state [alice]) =
       (\<lparr>status = 201, body = JObj
          [(''message'', JStr ''User registered successfully''),
           (''token'', JStr t1), (''user'', user_json u)]\<rparr>, s1)
   \<and> fst (post_login demo_env bob_request s1) =
       \<lparr>status = 200, body = JObj
          [(''message'', JStr ''Login successful''),
           (''token'', JStr t2), (''user'', user_json u)]\<rparr>
   \<and> u_id u = new_ObjectId demo_env \<and> u_name u = ''Bob'' \<and> u_email u = ''b@x''
   \<and> users s1 = users (ready_state [alice]) @ [u]
   \<and> jwt_verify demo_env t1 (Some ''k'') = Inr (Some (u_id u))
   \<and> jwt_verify demo_env t2 (Some ''k'') = Inr (Some (u_id u))"
proof (rule register_then_login [where h = "''$2a$s3''" and p = "''s3''"])
  show "isConnected (ready_state [alice])" by (simp add: ready_state_def)
  show "readyState demo_env = 1" by (simp add: demo_env_def)
  show "readyState demo_env = 1" by (simp add: demo_env_def)
  show "\<forall>u\<in>set (users (ready_state [alice])). u_email u \<noteq> ''b@x'' \<and> u_id u \<noteq> new_ObjectId demo_env"
    by (simp add: ready_state_def alice_def demo_env_def)
  show "body_name bob_request = Some ''Bob''" by (simp add: bob_request_def)
  show "body_email bob_request = Some ''b@x''" by (simp add: bob_request_def)
  show "body_password bob_request = Some ''s3''" by (simp add: bob_request_def)
  show "''Bob'' \<noteq> []" by simp
  show "''b@x'' \<noteq> []" by simp
  show "body_email bob_request = Some ''b@x''" by (simp add: bob_request_def)
  show "body_password bob_request = Some ''s3''" by (simp add: bob_request_def)
  show "store_error demo_env FindOne = None" by (simp add: demo_env_def)
  show "store_error demo_env SaveNew = None" by (simp add: demo_env_def)
  show "store_error demo_env FindOne = None" by (simp add: demo_env_def)
  show "JWT_SECRET demo_env = Some ''k''" by (simp add: demo_env_def)
  show "JWT_SECRET demo_env = Some ''k''" by (simp add: demo_env_def)
  show "bcrypt_hash demo_env (Some ''s3'') 10 = Inr ''$2a$s3''"
    by (simp add: demo_env_def demo_hash_def)
  show "''$2a$s3'' \<noteq> []" by simp
  show "bcrypt_compare demo_env (Some ''s3'') ''$2a$s3'' = Inr True"
    by (simp add: demo_env_def demo_compare_def)
  show "\<forall>i. \<exists>t. jwt_sign demo_env i (Some ''k'') ''1d'' = Inr t"
    using demo_sign_total by (simp add: demo_env_def)
  show "\<forall>i. \<exists>t. jwt_sign demo_env i (Some ''k'') ''1d'' = Inr t"
    using demo_sign_total by (simp add: demo_env_def)
  show "\<forall>i t. jwt_sign demo_env i (Some ''k'') ''1d'' = Inr t
             \<or> jwt_sign demo_env i (Some ''k'') ''1d'' = Inr t
           \<longrightarrow> jwt_verify demo_env t (Some ''k'') = Inr (Some i)"
    using demo_verify_sign by (simp add: demo_env_def)
qed

text \<open>
  C3, as it stands, fails: in a state where a user with the email exists and the readiness
  flag is false, the second registration is answered 503 by the gate, not "User already
  exists".
\<close>

theorem register_existing_unready_counterexample:
  "body_email alice_request = Some ''a@x''
   \<and> map u_email (users (unready_state [alice])) = [''a@x'']
   \<and> status (fst (post_register demo_env alice_request (unready_state [alice]))) = 503
   \<and> status (fst (post_register demo_env alice_request (unready_state [alice]))) \<noteq> 400
   \<and> field ''message'' (body (fst (post_register demo_env alice_request (unready_state [alice]))))
       \<noteq> Some (JStr ''User already exists'')"
  by (simp add: post_register_def checkDatabaseConnection_def unready_state_def
      alice_request_def alice_def)

text \<open>
  C3, amended. In every state in which a user with the email \<open>e\<close> exists, a registration
  with the email \<open>e\<close> leaves the collection as it was and makes no store call other than
  at most one \<^verbatim>\<open>findOne\<close> (so no insert), whatever it answers; and when the readiness gate
  is open (flag true, \<^verbatim>\<open>readyState\<close> 1) and \<^verbatim>\<open>findOne\<close> does not raise, the answer is 400
  with the message "User already exists".
\<close>

theorem register_existing_email:
  assumes "\<exists>u\<in>set (users s). u_email u = e" and "body_email req = Some e"
  shows "users (snd (post_register ev req s)) = users s
       \<and> (store_calls (snd (post_register ev req s)) = store_calls s
          \<or> store_calls (snd (post_register ev req s)) = store_calls s @ [FindOne])
       \<and> (isConnected s \<and> readyState ev = 1 \<and> store_error ev FindOne = None \<longrightarrow>
            fst (post_register ev req s) =
              \<lparr>status = 400, body = JObj [(''message'', JStr ''User already exists'')]\<rparr>
            \<and> snd (post_register ev req s) = called FindOne s)"
proof -
  from find_email_Some [OF assms(1)] obtain u
    where u: "find (\<lambda>u. u_email u = e) (users s) = Some u" by blast
  show ?thesis
    using u assms(2)
    by (simp add: post_register_def checkDatabaseConnection_def register_handler_def
        User_findOne_def called_def split: option.splits)
qed

theorem register_existing_email_witness:
  "(\<exists>u\<in>set (users (ready_state [alice])). u_email u = ''a@x'')
   \<and> isConnected (ready_state [alice]) \<and> readyState demo_env = 1
   \<and> store_error demo_env FindOne = None
   \<and> fst (post_register demo_env alice_request (ready_state [alice])) =
       \<lparr>status = 400, body = JObj [(''message'', JStr ''User already exists'')]\<rparr>
   \<and> users (snd (post_register demo_env alice_request (ready_state [alice]))) = [alice]
   \<and> store_calls (snd (post_register demo_env alice_request (ready_state [alice]))) = [FindOne]"
proof -
  have ex: "\<exists>u\<in>set (users (ready_state [alice])). u_email u = ''a@x''"
    by (simp add: ready_state_def alice_def)
  have em: "body_email alice_request = Some ''a@x''"
    by (simp add: alice_request_def)
  from register_existing_email [OF ex em, of demo_env] ex
  show ?thesis by (simp add: ready_state_def demo_env_def called_def)
qed

section \<open>The profile routes\<close>





lemma find_id_SomeD: "find (\<lambda>u. u_id u = i) us = Some u \<Longrightarrow> u_id u = i"
  by (induction us) (auto split: if_splits)

lemma length_updateOne: "length (updateOne i u vs) = length vs"
  by (induction vs) auto

lemma updateOne_nth:
  "find (\<lambda>v. u_id v = i) vs = Some w \<Longrightarrow> j < length vs \<Longrightarrow>
   updateOne i u vs ! j = vs ! j \<or> (vs ! j = w \<and> updateOne i u vs ! j = u)"
proof (induction vs arbitrary: j)
  case Nil
  then show ?case by simp
next
  case (Cons v vs)
  then show ?case by (cases j) (auto split: if_splits)
qed

lemma find_updateOne:
  "find (\<lambda>v. u_id v = i) vs = Some w \<Longrightarrow> u_id u = i \<Longrightarrow>
   find (\<lambda>v. u_id v = i) (updateOne i u vs) = Some u"
  by (induction vs) (auto split: if_splits)

lemma assign_fields_frame:
  "u_id (assign_fields nm em u) = u_id u \<and> u_password (assign_fields nm em u) = u_password u
   \<and> u_role (assign_fields nm em u) = u_role u
   \<and> u_createdAt (assign_fields nm em u) = u_createdAt u
   \<and> u_lastLogin (assign_fields nm em u) = u_lastLogin u
   \<and> (nm = None \<longrightarrow> u_name (assign_fields nm em u) = u_name u)
   \<and> (em = None \<longrightarrow> u_email (assign_fields nm em u) = u_email u)"
  by (simp add: assign_fields_def falsy_def Let_def)

text \<open>What the handler leaves in the collection: the same documents, or the first one with
  the id replaced by the assigned one.\<close>

lemma put_profile_handler_users:
  "users (snd (put_profile_handler ev req i s)) = users s
   \<or> (\<exists>u. find (\<lambda>v. Some (u_id v) = i) (users s) = Some u
          \<and> users (snd (put_profile_handler ev req i s)) =
              updateOne (u_id u) (assign_fields (body_name req) (body_email req) u) (users s))"
  by (auto simp add: put_profile_handler_def User_findById_def save_existing_def called_def
      Let_def not_found_def split: option.splits)



lemma get_profile_found:
  assumes "header_token req = Some tok" "tok \<noteq> []"
    and "jwt_verify ev tok (JWT_SECRET ev) = Inr (Some i)"
    and "store_error ev FindById = None"
    and "find (\<lambda>u. u_id u = i) (users s) = Some u"
  shows "get_profile ev req s =
        (\<lparr>status = 200, body = JObj
           [(''message'', JStr ''Profile retrieved successfully''),
            (''profile'', JObj
               [(''id'', JNum i),
                (''name'', JStr (u_name u)),
                (''email'', JStr (u_email u)),
                (''role'', JStr (role_or_member (u_role u))),
                (''createdAt'', JNum (u_createdAt u)),
                (''lastLogin'', JNum (case u_lastLogin u of None \<Rightarrow> Date_now ev | Some t \<Rightarrow> t))])]\<rparr>,
         called FindById s)"
  using assms find_id_SomeD [OF assms(5)]
  by (simp add: get_profile_def verifyToken_def falsy_def get_profile_handler_def
      User_findById_def select_minus_password_def Let_def)

lemma get_profile_users: "users (snd (get_profile ev req s)) = users s"
  by (simp add: get_profile_def get_profile_handler_def User_findById_def called_def Let_def
      split: sum.splits option.splits)

lemma demo_verify_alice: "demo_verify ''k.i'' (Some ''k'') = Inr (Some 1)"
  by (simp add: demo_verify_def)

lemma demo_verify_garbage: "demo_verify ''abc'' (Some ''k'') = Inl (Exn ''invalid token'')"
  by (simp add: demo_verify_def)




text \<open>
  C8. For a \<^verbatim>\<open>PUT /profile\<close> request whose token verifies to the id \<open>i\<close>: whatever
  the route answers, the collection keeps its length and every stored document keeps its
  id, password, role, creation date and last login, keeps its name when the body has no
  \<^verbatim>\<open>name\<close>, keeps its email when the body has no \<^verbatim>\<open>email\<close>, and is left as it was
  when its id is not \<open>i\<close>. When the user with id \<open>i\<close> is stored, the store calls do not
  raise and the body holds only a non-empty \<^verbatim>\<open>name\<close> \<open>x\<close>, the route finds the user,
  saves it with the name \<open>x\<close> and answers 200 with the id, the name \<open>x\<close>, the unchanged
  email and the role; the stored user is then the old one with the name \<open>x\<close>.
\<close>

theorem put_profile_frame:
  assumes tok: "verifyToken ev req = Inr (Some i)"
  shows "length (users (snd (put_profile ev req s))) = length (users s)
       \<and> (\<forall>j < length (users s).
             same_but (body_name req \<noteq> None) (body_email req \<noteq> None)
               (users s ! j) (users (snd (put_profile ev req s)) ! j)
           \<and> (u_id (users s ! j) \<noteq> i \<longrightarrow> users (snd (put_profile ev req s)) ! j = users s ! j))
       \<and> (\<forall>u x. find (\<lambda>v. u_id v = i) (users s) = Some u
             \<and> store_error ev FindById = None \<and> store_error ev SaveExisting = None
             \<and> body_name req = Some x \<and> x \<noteq> [] \<and> body_email req = None \<longrightarrow>
           put_profile ev req s =
             (\<lparr>status = 200, body = JObj
                [(''message'', JStr ''Profile updated successfully''),
                 (''profile'', JObj
                    [(''id'', JNum i),
                     (''name'', JStr x),
                     (''email'', JStr (u_email u)),
                     (''role'', JStr (role_or_member (u_role u))),
                     (''updatedAt'', JNum (Date_now ev))])]\<rparr>,
              (called SaveExisting (called FindById s))
                \<lparr>users := updateOne i (u\<lparr>u_name := x\<rparr>) (users s)\<rparr>)
           \<and> find (\<lambda>v. u_id v = i) (users (snd (put_profile ev req s))) = Some (u\<lparr>u_name := x\<rparr>))"
proof -
  let ?s' = "snd (put_profile ev req s)"
  have pp: "put_profile ev req s = put_profile_handler ev req (Some i) s"
    using tok by (simp add: put_profile_def)
  have len: "length (users ?s') = length (users s)"
    using put_profile_handler_users [of ev req "Some i" s]
    by (auto simp add: pp length_updateOne)
  have frame: "same_but (body_name req \<noteq> None) (body_email req \<noteq> None) (users s ! j) (users ?s' ! j)
             \<and> (u_id (users s ! j) \<noteq> i \<longrightarrow> users ?s' ! j = users s ! j)"
    if j: "j < length (users s)" for j
  proof -
    from put_profile_handler_users [of ev req "Some i" s]
    consider "users ?s' = users s"
      | u where "find (\<lambda>v. u_id v = i) (users s) = Some u"
          "users ?s' = updateOne (u_id u) (assign_fields (body_name req) (body_email req) u) (users s)"
      by (auto simp add: pp)
    then show ?thesis
    proof cases
      case 1
      then show ?thesis by (simp add: same_but_def)
    next
      case 2
      have id: "u_id u = i" using 2(1) by (rule find_id_SomeD)
      from updateOne_nth [OF 2(1) j, of "assign_fields (body_name req) (body_email req) u"]
      show ?thesis
        using 2(2) id assign_fields_frame [of "body_name req" "body_email req" u]
        by (auto simp add: same_but_def)
    qed
  qed
  have upd: "put_profile ev req s =
             (\<lparr>status = 200, body = JObj
                [(''message'', JStr ''Profile updated successfully''),
                 (''profile'', JObj
                    [(''id'', JNum i),
                     (''name'', JStr x),
                     (''email'', JStr (u_email u)),
                     (''role'', JStr (role_or_member (u_role u))),
                     (''updatedAt'', JNum (Date_now ev))])]\<rparr>,
              (called SaveExisting (called FindById s))
                \<lparr>users := updateOne i (u\<lparr>u_name := x\<rparr>) (users s)\<rparr>)
           \<and> find (\<lambda>v. u_id v = i) (users ?s') = Some (u\<lparr>u_name := x\<rparr>)"
    if h: "find (\<lambda>v. u_id v = i) (users s) = Some u"
       "store_error ev FindById = None" "store_error ev SaveExisting = None"
       "body_name req = Some x" "x \<noteq> []" "body_email req = None" for u x
  proof -
    have id: "u_id u = i" using h(1) by (rule find_id_SomeD)
    have asg: "assign_fields (Some x) None u = u\<lparr>u_name := x\<rparr>"
      using h(5) by (simp add: assign_fields_def falsy_def)
    have eq: "put_profile ev req s =
             (\<lparr>status = 200, body = JObj
                [(''message'', JStr ''Profile updated successfully''),
                 (''profile'', JObj
                    [(''id'', JNum i),
                     (''name'', JStr x),
                     (''email'', JStr (u_email u)),
                     (''role'', JStr (role_or_member (u_role u))),
                     (''updatedAt'', JNum (Date_now ev))])]\<rparr>,
              (called SaveExisting (called FindById s))
                \<lparr>users := updateOne i (u\<lparr>u_name := x\<rparr>) (users s)\<rparr>)"
      using h id asg
      by (simp add: pp put_profile_handler_def User_findById_def save_existing_def called_def
          Let_def)
    have "find (\<lambda>v. u_id v = i) (updateOne i (u\<lparr>u_name := x\<rparr>) (users s)) = Some (u\<lparr>u_name := x\<rparr>)"
      using h(1) id by (simp add: find_updateOne)
    with eq show ?thesis by (simp add: called_def)
  qed
  from len frame upd show ?thesis by blast
qed


theorem put_profile_frame_witness:
  "verifyToken demo_env rename_request = Inr (Some 1)
   \<and> status (fst (put_profile demo_env rename_request (ready_state [alice]))) = 200
   \<and> users (snd (put_profile demo_env rename_request (ready_state [alice])))
       = [alice\<lparr>u_name := ''X''\<rparr>]
   \<and> u_email (users (snd (put_profile demo_env rename_request (ready_state [alice]))) ! 0) = ''a@x''"
proof -
  have tok: "verifyToken demo_env rename_request = Inr (Some 1)"
    by (simp add: verifyToken_def header_token_def rename_request_def falsy_def demo_env_def
        demo_verify_alice)
  have pre: "find (\<lambda>v. u_id v = 1) (users (ready_state [alice])) = Some alice
      \<and> store_error demo_env FindById = None \<and> store_error demo_env SaveExisting = None
      \<and> body_name rename_request = Some ''X'' \<and> ''X'' \<noteq> [] \<and> body_email rename_request = None"
    by (simp add: ready_state_def alice_def demo_env_def rename_request_def)
  have len: "0 < length (users (ready_state [alice]))" by (simp add: ready_state_def)
  from put_profile_frame [OF tok, of "ready_state [alice]"] pre
  have eq: "put_profile demo_env rename_request (ready_state [alice]) =
             (\<lparr>status = 200, body = JObj
                [(''message'', JStr ''Profile updated successfully''),
                 (''profile'', JObj
                    [(''id'', JNum 1),
                     (''name'', JStr ''X''),
                     (''email'', JStr (u_email alice)),
                     (''role'', JStr (role_or_member (u_role alice))),
                     (''updatedAt'', JNum (Date_now demo_env))])]\<rparr>,
              (called SaveExisting (called FindById (ready_state [alice])))
                \<lparr>users := updateOne 1 (alice\<lparr>u_name := ''X''\<rparr>) (users (ready_state [alice]))\<rparr>)"
    by blast
  have st: "status (fst (put_profile demo_env rename_request (ready_state [alice]))) = 200"
    unfolding eq by simp
  have us: "users (snd (put_profile demo_env rename_request (ready_state [alice])))
       = [alice\<lparr>u_name := ''X''\<rparr>]"
    unfolding eq by (simp add: called_def ready_state_def alice_def)
  have em: "u_email (users (snd (put_profile demo_env rename_request (ready_state [alice]))) ! 0) = ''a@x''"
    unfolding us by (simp add: alice_def)
  from tok st us em show ?thesis by blast
qed

section \<open>Failures of the registration\<close>

lemma save_new_outcome:
  "(\<exists>e. save_new ev d s = (Inl e, called SaveNew s))
   \<or> (\<exists>u. save_new ev d s = (Inr u, (called SaveNew s)\<lparr>users := users s @ [u]\<rparr>))"
  by (simp add: save_new_def Let_def split: option.splits)

text \<open>The answers of the registration handler, one per path through it.\<close>

lemma register_handler_cases:
  "(\<exists>e. register_handler ev req s = (register_failed e, called FindOne s))
   \<or> register_handler ev req s =
       (\<lparr>status = 400, body = JObj [(''message'', JStr ''User already exists'')]\<rparr>, called FindOne s)
   \<or> (\<exists>e. register_handler ev req s = (register_failed e, called SaveNew (called FindOne s)))
   \<or> (\<exists>e u. register_handler ev req s =
         (register_failed e, (called SaveNew (called FindOne s))\<lparr>users := users s @ [u]\<rparr>))
   \<or> (\<exists>t u. register_handler ev req s =
         (\<lparr>status = 201, body = JObj
            [(''message'', JStr ''User registered successfully''),
             (''token'', JStr t), (''user'', user_json u)]\<rparr>,
          (called SaveNew (called FindOne s))\<lparr>users := users s @ [u]\<rparr>))"
proof (cases "store_error ev FindOne")
  case (Some e)
  then show ?thesis by (auto simp add: register_handler_def User_findOne_def)
next
  case None
  note nofault = this
  show ?thesis
  proof (cases "find (\<lambda>u. Some (u_email u) = body_email req) (users s)")
    case (Some u)
    with nofault show ?thesis by (auto simp add: register_handler_def User_findOne_def)
  next
    case None
    note nouser = this
    show ?thesis
    proof (cases "bcrypt_hash ev (body_password req) 10")
      case (Inl e)
      with nofault nouser show ?thesis by (auto simp add: register_handler_def User_findOne_def)
    next
      case (Inr h)
      from save_new_outcome [of ev "new_User ev (body_name req) (body_email req) (Some h)" "called FindOne s"]
      show ?thesis
        using nofault nouser Inr
        by (cases "jwt_sign ev (new_ObjectId ev) (JWT_SECRET ev) ''1d''")
           (auto simp add: register_handler_def User_findOne_def called_def
             split: sum.splits)
    qed
  qed
qed


text \<open>
  C9. Every answer of \<^verbatim>\<open>POST /register\<close> is a JSON object with a \<^verbatim>\<open>message\<close>, and its
  status is 201, 400, 500 or 503. An exception raised by \<^verbatim>\<open>findOne\<close>, by
  \<^verbatim>\<open>bcrypt.hash\<close>, by \<^verbatim>\<open>save\<close> (or by \<^verbatim>\<open>jwt.sign\<close>) past the gate is answered with
  status 500 and the message "Error registering user", the same for every exception. The
  call that raised is the last one of the request: the store calls of a request are none,
  one \<^verbatim>\<open>findOne\<close>, or one \<^verbatim>\<open>findOne\<close> and one \<^verbatim>\<open>save\<close>, and a \<^verbatim>\<open>save\<close> that raised
  has stored nothing.
\<close>

theorem register_failure_paths:
  "(\<exists>m. field ''message'' (body (fst (post_register ev req s))) = Some (JStr m))
 \<and> status (fst (post_register ev req s)) \<in> {201, 400, 500, 503}
 \<and> (status (fst (post_register ev req s)) = 500 \<longrightarrow>
      field ''message'' (body (fst (post_register ev req s))) = Some (JStr ''Error registering user''))
 \<and> (\<forall>e. status (register_failed e) = 500
        \<and> field ''message'' (body (register_failed e)) = Some (JStr ''Error registering user''))
 \<and> (isConnected s \<and> readyState ev = 1 \<longrightarrow>
      (\<forall>e s1. User_findOne ev (body_email req) s = (Inl e, s1) \<longrightarrow>
         post_register ev req s = (register_failed e, called FindOne s))
    \<and> (\<forall>e s1. User_findOne ev (body_email req) s = (Inr None, s1)
           \<and> bcrypt_hash ev (body_password req) 10 = Inl e \<longrightarrow>
         post_register ev req s = (register_failed e, called FindOne s))
    \<and> (\<forall>e h s1 s2. User_findOne ev (body_email req) s = (Inr None, s1)
           \<and> bcrypt_hash ev (body_password req) 10 = Inr h
           \<and> save_new ev (new_User ev (body_name req) (body_email req) (Some h)) s1 = (Inl e, s2) \<longrightarrow>
         post_register ev req s = (register_failed e, called SaveNew (called FindOne s)))
    \<and> (\<forall>e h u s1 s2. User_findOne ev (body_email req) s = (Inr None, s1)
           \<and> bcrypt_hash ev (body_password req) 10 = Inr h
           \<and> save_new ev (new_User ev (body_name req) (body_email req) (Some h)) s1 = (Inr u, s2)
           \<and> jwt_sign ev (u_id u) (JWT_SECRET ev) ''1d'' = Inl e \<longrightarrow>
         fst (post_register ev req s) = register_failed e))
 \<and> (store_calls (snd (post_register ev req s)) = store_calls s
      \<or> store_calls (snd (post_register ev req s)) = store_calls s @ [FindOne]
      \<or> store_calls (snd (post_register ev req s)) = store_calls s @ [FindOne, SaveNew])"
proof -
  let ?r = "post_register ev req s"
  have shape: "(\<exists>m. field ''message'' (body (fst ?r)) = Some (JStr m))
      \<and> status (fst ?r) \<in> {201, 400, 500, 503}
      \<and> (status (fst ?r) = 500 \<longrightarrow>
           field ''message'' (body (fst ?r)) = Some (JStr ''Error registering user''))
      \<and> (store_calls (snd ?r) = store_calls s
           \<or> store_calls (snd ?r) = store_calls s @ [FindOne]
           \<or> store_calls (snd ?r) = store_calls s @ [FindOne, SaveNew])"
  proof (cases "checkDatabaseConnection ev s")
    case (Some r)
    then show ?thesis
      by (auto simp add: post_register_def checkDatabaseConnection_def split: if_splits)
  next
    case None
    then have eq: "?r = register_handler ev req s" by (simp add: post_register_def)
    from register_handler_cases [of ev req s] show ?thesis
      unfolding eq by (elim disjE exE) (simp_all add: register_failed_def called_def)
  qed
  have generic: "\<forall>e. status (register_failed e) = 500
        \<and> field ''message'' (body (register_failed e)) = Some (JStr ''Error registering user'')"
    by (simp add: register_failed_def)
  have raised: "isConnected s \<and> readyState ev = 1 \<longrightarrow>
      (\<forall>e s1. User_findOne ev (body_email req) s = (Inl e, s1) \<longrightarrow>
         ?r = (register_failed e, called FindOne s))
    \<and> (\<forall>e s1. User_findOne ev (body_email req) s = (Inr None, s1)
           \<and> bcrypt_hash ev (body_password req) 10 = Inl e \<longrightarrow>
         ?r = (register_failed e, called FindOne s))
    \<and> (\<forall>e h s1 s2. User_findOne ev (body_email req) s = (Inr None, s1)
           \<and> bcrypt_hash ev (body_password req) 10 = Inr h
           \<and> save_new ev (new_User ev (body_name req) (body_email req) (Some h)) s1 = (Inl e, s2) \<longrightarrow>
         ?r = (register_failed e, called SaveNew (called FindOne s)))
    \<and> (\<forall>e h u s1 s2. User_findOne ev (body_email req) s = (Inr None, s1)
           \<and> bcrypt_hash ev (body_password req) 10 = Inr h
           \<and> save_new ev (new_User ev (body_name req) (body_email req) (Some h)) s1 = (Inr u, s2)
           \<and> jwt_sign ev (u_id u) (JWT_SECRET ev) ''1d'' = Inl e \<longrightarrow>
         fst ?r = register_failed e)"
  proof (intro impI conjI allI)
    fix e s1
    assume g: "isConnected s \<and> readyState ev = 1"
      and f: "User_findOne ev (body_email req) s = (Inl e, s1)"
    from f have "s1 = called FindOne s"
      by (auto simp add: User_findOne_def split: option.splits)
    with g f show "?r = (register_failed e, called FindOne s)"
      by (simp add: post_register_def checkDatabaseConnection_def register_handler_def)
  next
    fix e s1
    assume g: "isConnected s \<and> readyState ev = 1"
      and f: "User_findOne ev (body_email req) s = (Inr None, s1)
              \<and> bcrypt_hash ev (body_password req) 10 = Inl e"
    from f have "s1 = called FindOne s"
      by (auto simp add: User_findOne_def split: option.splits)
    with g f show "?r = (register_failed e, called FindOne s)"
      by (simp add: post_register_def checkDatabaseConnection_def register_handler_def)
  next
    fix e h s1 s2
    assume g: "isConnected s \<and> readyState ev = 1"
      and f: "User_findOne ev (body_email req) s = (Inr None, s1)
              \<and> bcrypt_hash ev (body_password req) 10 = Inr h
              \<and> save_new ev (new_User ev (body_name req) (body_email req) (Some h)) s1 = (Inl e, s2)"
    from f have s1: "s1 = called FindOne s"
      by (auto simp add: User_findOne_def split: option.splits)
    from save_new_outcome [of ev "new_User ev (body_name req) (body_email req) (Some h)" s1] f
    have "s2 = called SaveNew s1" by auto
    with g f s1 show "?r = (register_failed e, called SaveNew (called FindOne s))"
      by (simp add: post_register_def checkDatabaseConnection_def register_handler_def)
  next
    fix e h u s1 s2
    assume g: "isConnected s \<and> readyState ev = 1"
      and f: "User_findOne ev (body_email req) s = (Inr None, s1)
              \<and> bcrypt_hash ev (body_password req) 10 = Inr h
              \<and> save_new ev (new_User ev (body_name req) (body_email req) (Some h)) s1 = (Inr u, s2)
              \<and> jwt_sign ev (u_id u) (JWT_SECRET ev) ''1d'' = Inl e"
    with g show "fst ?r = register_failed e"
      by (simp add: post_register_def checkDatabaseConnection_def register_handler_def)
  qed
  from shape generic raised show ?thesis by blast
qed

theorem register_failure_paths_witness:
  "isConnected (ready_state [alice]) \<and> readyState (failing_env FindOne) = 1
   \<and> User_findOne (failing_env FindOne) (body_email bob_request) (ready_state [alice]) =
       (Inl (Exn ''buffering timed out''), called FindOne (ready_state [alice]))
   \<and> post_register (failing_env FindOne) bob_request (ready_state [alice]) =
       (\<lparr>status = 500, body = JObj
          [(''message'', JStr ''Error registering user''),
           (''error'', JStr ''buffering timed out'')]\<rparr>, called FindOne (ready_state [alice]))
   \<and> save_new (failing_env SaveNew)
        (new_User (failing_env SaveNew) (body_name bob_request) (body_email bob_request) (Some ''$2a$s3''))
        (called FindOne (ready_state [alice])) =
       (Inl (Exn ''buffering timed out''), called SaveNew (called FindOne (ready_state [alice])))
   \<and> post_register (failing_env SaveNew) bob_request (ready_state [alice]) =
       (\<lparr>status = 500, body = JObj
          [(''message'', JStr ''Error registering user''),
           (''error'', JStr ''buffering timed out'')]\<rparr>,
        called SaveNew (called FindOne (ready_state [alice])))
   \<and> users (called SaveNew (called FindOne (ready_state [alice]))) = [alice]"
proof -
  have g: "isConnected (ready_state [alice]) \<and> readyState (failing_env FindOne) = 1
           \<and> readyState (failing_env SaveNew) = 1"
    by (simp add: ready_state_def failing_env_def demo_env_def)
  have f1: "User_findOne (failing_env FindOne) (body_email bob_request) (ready_state [alice]) =
       (Inl (Exn ''buffering timed out''), called FindOne (ready_state [alice]))"
    by (simp add: User_findOne_def failing_env_def)
  have f2: "User_findOne (failing_env SaveNew) (body_email bob_request) (ready_state [alice]) =
       (Inr None, called FindOne (ready_state [alice]))"
    by (simp add: User_findOne_def failing_env_def bob_request_def ready_state_def alice_def
        called_def)
  have f3: "bcrypt_hash (failing_env SaveNew) (body_password bob_request) 10 = Inr ''$2a$s3''"
    by (simp add: failing_env_def demo_env_def demo_hash_def bob_request_def)
  have f4: "save_new (failing_env SaveNew)
        (new_User (failing_env SaveNew) (body_name bob_request) (body_email bob_request) (Some ''$2a$s3''))
        (called FindOne (ready_state [alice])) =
       (Inl (Exn ''buffering timed out''), called SaveNew (called FindOne (ready_state [alice])))"
    by (simp add: save_new_def new_User_def required_def failing_env_def bob_request_def
        Let_def)
  from register_failure_paths [of "failing_env FindOne" bob_request "ready_state [alice]"] g f1
  have r1: "post_register (failing_env FindOne) bob_request (ready_state [alice]) =
       (register_failed (Exn ''buffering timed out''), called FindOne (ready_state [alice]))"
    by blast
  from register_failure_paths [of "failing_env SaveNew" bob_request "ready_state [alice]"] g f2 f3 f4
  have r2: "post_register (failing_env SaveNew) bob_request (ready_state [alice]) =
       (register_failed (Exn ''buffering timed out''),
        called SaveNew (called FindOne (ready_state [alice])))"
    by blast
  have us: "users (called SaveNew (called FindOne (ready_state [alice]))) = [alice]"
    by (simp add: called_def ready_state_def)
  from g f1 f4 r1 r2 us show ?thesis by (simp add: register_failed_def)
qed

section \<open>Login and the stored record\<close>

text \<open>
  C10. A login writes nothing: whatever \<^verbatim>\<open>POST /login\<close> answers, the users collection
  afterwards is the one before, with every field of every record, \<^verbatim>\<open>lastLogin\<close>
  included, and the state of the process is the one before except for at most one
  \<^verbatim>\<open>findOne\<close> in the list of store calls. \<^verbatim>\<open>GET /profile\<close> leaves the collection as it
  was too; when the stored user has no \<^verbatim>\<open>lastLogin\<close>, the profile it answers shows
  the current time in that field, and the stored user still is the same record.
\<close>

theorem login_writes_nothing:
  "users (snd (post_login ev req s)) = users s
 \<and> (snd (post_login ev req s) = s \<or> snd (post_login ev req s) = called FindOne s)
 \<and> users (snd (get_profile ev req' s)) = users s
 \<and> (\<forall>tok i u. header_token req' = Some tok \<and> tok \<noteq> []
        \<and> jwt_verify ev tok (JWT_SECRET ev) = Inr (Some i)
        \<and> store_error ev FindById = None
        \<and> find (\<lambda>u. u_id u = i) (users s) = Some u \<and> u_lastLogin u = None \<longrightarrow>
      (\<exists>p. field ''profile'' (body (fst (get_profile ev req' s))) = Some p
          \<and> field ''lastLogin'' p = Some (JNum (Date_now ev)))
      \<and> find (\<lambda>u. u_id u = i) (users (snd (get_profile ev req' s))) = Some u)"
proof -
  have l: "snd (post_login ev req s) = s \<or> snd (post_login ev req s) = called FindOne s"
    by (simp add: post_login_def login_handler_def User_findOne_def
        split: option.splits sum.splits)
  then have lu: "users (snd (post_login ev req s)) = users s"
    by (auto simp add: called_def)
  have g: "users (snd (get_profile ev req' s)) = users s"
    by (rule get_profile_users)
  have d: "\<forall>tok i u. header_token req' = Some tok \<and> tok \<noteq> []
        \<and> jwt_verify ev tok (JWT_SECRET ev) = Inr (Some i)
        \<and> store_error ev FindById = None
        \<and> find (\<lambda>u. u_id u = i) (users s) = Some u \<and> u_lastLogin u = None \<longrightarrow>
      (\<exists>p. field ''profile'' (body (fst (get_profile ev req' s))) = Some p
          \<and> field ''lastLogin'' p = Some (JNum (Date_now ev)))
      \<and> find (\<lambda>u. u_id u = i) (users (snd (get_profile ev req' s))) = Some u"
  proof (intro allI impI)
    fix tok i u
    assume h: "header_token req' = Some tok \<and> tok \<noteq> []
        \<and> jwt_verify ev tok (JWT_SECRET ev) = Inr (Some i)
        \<and> store_error ev FindById = None
        \<and> find (\<lambda>u. u_id u = i) (users s) = Some u \<and> u_lastLogin u = None"
    then have eq: "get_profile ev req' s =
        (\<lparr>status = 200, body = JObj
           [(''message'', JStr ''Profile retrieved successfully''),
            (''profile'', JObj
               [(''id'', JNum i),
                (''name'', JStr (u_name u)),
                (''email'', JStr (u_email u)),
                (''role'', JStr (role_or_member (u_role u))),
                (''createdAt'', JNum (u_createdAt u)),
                (''lastLogin'', JNum (case u_lastLogin u of None \<Rightarrow> Date_now ev | Some t \<Rightarrow> t))])]\<rparr>,
         called FindById s)"
      using get_profile_found [of req' tok ev i s u] by blast
    show "(\<exists>p. field ''profile'' (body (fst (get_profile ev req' s))) = Some p
          \<and> field ''lastLogin'' p = Some (JNum (Date_now ev)))
      \<and> find (\<lambda>u. u_id u = i) (users (snd (get_profile ev req' s))) = Some u"
      using h unfolding eq by (simp add: called_def)
  qed
  from l lu g d show ?thesis by blast
qed

theorem login_writes_nothing_witness:
  "status (fst (post_login demo_env alice_login (ready_state [alice]))) = 200
   \<and> users (snd (post_login demo_env alice_login (ready_state [alice]))) = [alice]
   \<and> u_lastLogin alice = None
   \<and> (\<exists>p. field ''profile'' (body (fst (get_profile demo_env (with_header ''Bearer k.i'') (ready_state [alice])))) = Some p
          \<and> field ''lastLogin'' p = Some (JNum 1000))
   \<and> find (\<lambda>u. u_id u = 1)
        (users (snd (get_profile demo_env (with_header ''Bearer k.i'') (ready_state [alice])))) = Some alice"
proof -
  have ok: "status (fst (post_login demo_env alice_login (ready_state [alice]))) = 200"
    by (simp add: post_login_def checkDatabaseConnection_def login_handler_def User_findOne_def
        demo_env_def ready_state_def alice_login_def alice_def demo_compare_def demo_sign_def)
  have us: "users (ready_state [alice]) = [alice]" by (simp add: ready_state_def)
  have pre: "header_token (with_header ''Bearer k.i'') = Some ''k.i'' \<and> ''k.i'' \<noteq> []
      \<and> jwt_verify demo_env ''k.i'' (JWT_SECRET demo_env) = Inr (Some 1)
      \<and> store_error demo_env FindById = None
      \<and> find (\<lambda>u. u_id u = 1) (users (ready_state [alice])) = Some alice
      \<and> u_lastLogin alice = None"
    by (simp add: header_token_def with_header_def demo_env_def demo_verify_alice
        ready_state_def alice_def)
  have now: "Date_now demo_env = 1000" by (simp add: demo_env_def)
  from login_writes_nothing [of demo_env alice_login "ready_state [alice]" "with_header ''Bearer k.i''"]
  show ?thesis using ok us pre now by metis
qed


section \<open>The connection lifecycle\<close>

lemma run_append:
  "run (xs @ ys) s = (case run xs s of None \<Rightarrow> None | Some s' \<Rightarrow> run ys s')"
  by (induction xs arbitrary: s) (auto split: option.splits)

lemma failure_round:
  assumes "0 < connecting s" "timers s = []"
  shows "run [ConnectRejected e, TimerFired] s = Some (s\<lparr>isConnected := False\<rparr>)"
  using assms by (simp add: connect_rejected_def connectWithRetry_call_def)

lemma failures_run:
  "0 < connecting s \<Longrightarrow> timers s = [] \<Longrightarrow>
   run (failures e n) s = Some (if n = 0 then s else s\<lparr>isConnected := False\<rparr>)"
proof (induction n arbitrary: s)
  case 0
  then show ?case by simp
next
  case (Suc n)
  let ?s1 = "s\<lparr>isConnected := False\<rparr>"
  have r: "run [ConnectRejected e, TimerFired] s = Some ?s1"
    using Suc.prems by (rule failure_round)
  have "run (failures e (Suc n)) s = run ([ConnectRejected e, TimerFired] @ failures e n) s"
    by simp
  also have "\<dots> = run (failures e n) ?s1"
    unfolding run_append r by simp
  also have "\<dots> = Some (if n = 0 then ?s1 else ?s1\<lparr>isConnected := False\<rparr>)"
    using Suc.prems by (intro Suc.IH) simp_all
  finally show ?case by simp
qed

text \<open>
  No event other than the success of an attempt takes the last attempt away: a failure
  leaves a timer, a timer leaves an attempt, a disconnect adds an attempt, and the
  \<^verbatim>\<open>connected\<close> and \<^verbatim>\<open>error\<close> listeners touch neither attempts nor timers.
\<close>

lemma step_keeps_retry:
  "step ev s = Some s' \<Longrightarrow> \<not> is_resolved_event ev \<Longrightarrow> retry_live s \<Longrightarrow> retry_live s'"
  by (cases ev)
     (auto simp add: retry_live_def connect_rejected_def connectWithRetry_call_def
       on_connected_def on_error_def on_disconnected_def
       split: if_splits list.splits)

lemma run_keeps_retry:
  "run evs s = Some s' \<Longrightarrow> \<not> list_ex is_resolved_event evs \<Longrightarrow>
   retry_live s \<Longrightarrow> retry_live s'"
proof (induction evs arbitrary: s)
  case Nil
  then show ?case by simp
next
  case (Cons ev evs)
  from Cons.prems(1) obtain s1 where s1: "step ev s = Some s1" and r: "run evs s1 = Some s'"
    by (auto split: option.splits)
  from Cons.prems(2) have ne: "\<not> is_resolved_event ev"
    and nes: "\<not> list_ex is_resolved_event evs"
    by simp_all
  from step_keeps_retry [OF s1 ne Cons.prems(3)] have "retry_live s1" .
  with r nes show ?case by (rule Cons.IH)
qed

text \<open>
  The \<^verbatim>\<open>error\<close> listener (lines 89 to 93) clears the flag and calls nothing. After an
  attempt that succeeded, one \<^verbatim>\<open>error\<close> event leaves the flag false with no attempt
  under way and no timer pending, and the gate answers 503.
\<close>

lemma error_listener_no_retry:
  "run [ConnectResolved, ConnectionError refused] (startup []) =
     Some \<lparr>isConnected = False, connecting = 0, timers = [], users = [], store_calls = []\<rparr>
   \<and> \<not> retry_live \<lparr>isConnected = False, connecting = 0, timers = [], users = [], store_calls = []\<rparr>
   \<and> status (fst (post_register demo_env bob_request
        \<lparr>isConnected = False, connecting = 0, timers = [], users = [], store_calls = []\<rparr>)) = 503"
  by (simp add: startup_def connectWithRetry_call_def connect_resolved_def on_error_def
      retry_live_def post_register_def checkDatabaseConnection_def)

text \<open>
  C7, as it stands, fails for the disconnect event: its listener clears the flag and calls
  \<^verbatim>\<open>connectWithRetry\<close> at once, so that an attempt is under way and no timer is pending;
  when that attempt succeeds the flag is true again and no retry was ever scheduled.
\<close>

theorem disconnect_counterexample:
  "step Disconnected (ready_state []) =
     Some \<lparr>isConnected = False, connecting = 1, timers = [], users = [], store_calls = []\<rparr>
   \<and> run [Disconnected, ConnectResolved] (ready_state []) = Some (ready_state [])"
  by (simp add: ready_state_def on_disconnected_def connectWithRetry_call_def connect_resolved_def)

text \<open>
  C7, amended. When a connection attempt fails, the flag becomes false and one more call of
  \<^verbatim>\<open>connectWithRetry\<close> is scheduled with the delay 5000 ms. When the connection emits
  \<^verbatim>\<open>disconnected\<close>, the flag becomes false and \<^verbatim>\<open>connectWithRetry\<close> is called at once,
  with no delay and no timer. The delay does not grow and the retries are not counted:
  after any number \<open>n\<close> of failed attempts, each followed by its timer, the next failure
  again leaves exactly one pending timer, of 5000 ms. After a failed attempt or a
  disconnect, and from start-up on, an attempt stays under way or scheduled through
  whatever events follow, \<^verbatim>\<open>error\<close> events included, until an attempt succeeds.
\<close>

theorem reconnect_policy:
  "(0 < connecting s \<longrightarrow>
      (\<exists>s'. step (ConnectRejected e) s = Some s' \<and> \<not> isConnected s'
           \<and> timers s' = timers s @ [5000] \<and> retry_live s'))
 \<and> (\<exists>s'. step Disconnected s = Some s' \<and> \<not> isConnected s'
         \<and> connecting s' = connecting s + 1 \<and> timers s' = timers s \<and> retry_live s')
 \<and> (0 < connecting s \<and> timers s = [] \<longrightarrow>
      (\<exists>s'. run (failures e n @ [ConnectRejected e]) s = Some s'
           \<and> \<not> isConnected s' \<and> timers s' = [5000]))
 \<and> (\<forall>evs s'. retry_live s \<and> run evs s = Some s' \<and> \<not> list_ex is_resolved_event evs \<longrightarrow>
      retry_live s')
 \<and> retry_live (startup us)"
proof -
  have a: "0 < connecting s \<longrightarrow>
      (\<exists>s'. step (ConnectRejected e) s = Some s' \<and> \<not> isConnected s'
           \<and> timers s' = timers s @ [5000] \<and> retry_live s')"
    by (simp add: connect_rejected_def retry_live_def)
  have b: "\<exists>s'. step Disconnected s = Some s' \<and> \<not> isConnected s'
         \<and> connecting s' = connecting s + 1 \<and> timers s' = timers s \<and> retry_live s'"
    by (simp add: on_disconnected_def connectWithRetry_call_def retry_live_def)
  have c: "0 < connecting s \<and> timers s = [] \<longrightarrow>
      (\<exists>s'. run (failures e n @ [ConnectRejected e]) s = Some s'
           \<and> \<not> isConnected s' \<and> timers s' = [5000])"
  proof
    assume h: "0 < connecting s \<and> timers s = []"
    then have r: "run (failures e n) s = Some (if n = 0 then s else s\<lparr>isConnected := False\<rparr>)"
      by (simp add: failures_run)
    show "\<exists>s'. run (failures e n @ [ConnectRejected e]) s = Some s'
           \<and> \<not> isConnected s' \<and> timers s' = [5000]"
      unfolding run_append r using h by (simp add: connect_rejected_def)
  qed
  have d: "\<forall>evs s'. retry_live s \<and> run evs s = Some s' \<and> \<not> list_ex is_resolved_event evs \<longrightarrow>
      retry_live s'"
    using run_keeps_retry by blast
  have init: "retry_live (startup us)"
    by (simp add: startup_def connectWithRetry_call_def retry_live_def)
  from a b c d init show ?thesis by blast
qed

theorem reconnect_policy_witness:
  "0 < connecting (startup []) \<and> timers (startup []) = []
   \<and> step (ConnectRejected refused) (startup []) =
       Some \<lparr>isConnected = False, connecting = 0, timers = [5000], users = [], store_calls = []\<rparr>
   \<and> (\<exists>s'. run (failures refused 3 @ [ConnectRejected refused]) (startup []) = Some s'
          \<and> \<not> isConnected s' \<and> timers s' = [5000])
   \<and> retry_live (startup [])
   \<and> run [ConnectionError refused, ConnectRejected refused, ConnectionError refused,
           TimerFired, ConnectionError refused, ConnectRejected refused] (startup []) =
       Some \<lparr>isConnected = False, connecting = 0, timers = [5000], users = [], store_calls = []\<rparr>
   \<and> \<not> list_ex is_resolved_event
         [ConnectionError refused, ConnectRejected refused, ConnectionError refused,
          TimerFired, ConnectionError refused, ConnectRejected refused]
   \<and> retry_live \<lparr>isConnected = False, connecting = 0, timers = [5000], users = [], store_calls = []\<rparr>"
proof -
  let ?evs = "[ConnectionError refused, ConnectRejected refused, ConnectionError refused,
               TimerFired, ConnectionError refused, ConnectRejected refused]"
  let ?end = "\<lparr>isConnected = False, connecting = 0, timers = [5000], users = [], store_calls = []\<rparr>"
  have pre: "0 < connecting (startup []) \<and> timers (startup []) = []"
    by (simp add: startup_def connectWithRetry_call_def)
  have st: "step (ConnectRejected refused) (startup []) = Some ?end"
    by (simp add: startup_def connectWithRetry_call_def connect_rejected_def)
  have rn: "run ?evs (startup []) = Some ?end"
    by (simp add: startup_def connectWithRetry_call_def connect_rejected_def on_error_def)
  have ne: "\<not> list_ex is_resolved_event ?evs" by simp
  from reconnect_policy [of "startup []" refused 3 "[]"] pre
  have many: "\<exists>s'. run (failures refused 3 @ [ConnectRejected refused]) (startup []) = Some s'
          \<and> \<not> isConnected s' \<and> timers s' = [5000]"
    by blast
  from reconnect_policy [of "startup []" refused 3 "[]"]
  have init: "retry_live (startup [])" by blast
  from reconnect_policy [of "startup []" refused 3 "[]"] init rn ne
  have live: "retry_live ?end" by blast
  from pre st many init rn ne live show ?thesis by blast
qed

section \<open>The Token Service\<close>

text \<open>
  C2. In the Token Service of the specification: the lifetime is 24 hours; a token issued
  for a user id at \<open>now\<close> verifies to that id at any time before \<open>now\<close> plus the lifetime,
  and to \<open>Invalid\<close> at any time after it; a corrupt token, a token whose signature is
  not the one of its contents, and a token whose expiry is in the past each verify to the
  one value \<open>Invalid\<close>; and a token verifies to an id only if it is well formed, signed
  for its contents and not expired. In the code, whatever exception \<^verbatim>\<open>jwt.verify\<close>
  raises, \<^verbatim>\<open>verifyToken\<close> gives the same answer, 400 "Invalid Token".
\<close>

theorem token_service:
  "token_lifetime = 86400
 \<and> (t < now + token_lifetime \<longrightarrow> verify mac key t (issue mac key now uid) = Valid uid)
 \<and> (now + token_lifetime < t \<longrightarrow> verify mac key t (issue mac key now uid) = Invalid)
 \<and> verify mac key t (Corrupt x) = Invalid
 \<and> (sg \<noteq> mac key (u, iat, ex) \<longrightarrow> verify mac key t (Token u iat ex sg) = Invalid)
 \<and> (ex < t \<longrightarrow> verify mac key t (Token u iat ex sg) = Invalid)
 \<and> (verify mac key t tok = Valid u \<longrightarrow>
       (\<exists>iat ex. tok = Token u iat ex (mac key (u, iat, ex)) \<and> t \<le> ex))
 \<and> (\<forall>tk e. header_token req = Some tk \<and> tk \<noteq> [] \<and> jwt_verify ev tk (JWT_SECRET ev) = Inl e \<longrightarrow>
       verifyToken ev req = Inl \<lparr>status = 400, body = JObj [(''message'', JStr ''Invalid Token'')]\<rparr>)"
proof -
  have v: "verify mac key t tok = Valid u \<longrightarrow>
       (\<exists>iat ex. tok = Token u iat ex (mac key (u, iat, ex)) \<and> t \<le> ex)"
    by (cases tok) (auto split: if_splits)
  have c: "\<forall>tk e. header_token req = Some tk \<and> tk \<noteq> [] \<and> jwt_verify ev tk (JWT_SECRET ev) = Inl e \<longrightarrow>
       verifyToken ev req = Inl \<lparr>status = 400, body = JObj [(''message'', JStr ''Invalid Token'')]\<rparr>"
    by (simp add: verifyToken_def falsy_def)
  from v c show ?thesis by (simp add: issue_def token_lifetime_def)
qed


theorem token_service_witness:
  "(100::nat) < 0 + token_lifetime
   \<and> verify demo_mac 7 100 (issue demo_mac 7 0 1) = Valid 1
   \<and> 0 + token_lifetime < (86401::nat)
   \<and> verify demo_mac 7 86401 (issue demo_mac 7 0 1) = Invalid
   \<and> (0::nat) \<noteq> demo_mac 7 (1, 0, 86400)
   \<and> verify demo_mac 7 100 (Token 1 0 86400 0) = Invalid
   \<and> verifyToken demo_env (with_header ''Bearer abc'') =
       Inl \<lparr>status = 400, body = JObj [(''message'', JStr ''Invalid Token'')]\<rparr>"
proof -
  have life: "token_lifetime = 86400" by (simp add: token_lifetime_def)
  have sg: "(0::nat) \<noteq> demo_mac 7 (1, 0, 86400)" by (simp add: demo_mac_def)
  have hd: "header_token (with_header ''Bearer abc'') = Some ''abc'' \<and> ''abc'' \<noteq> []
      \<and> jwt_verify demo_env ''abc'' (JWT_SECRET demo_env) = Inl (Exn ''invalid token'')"
    by (simp add: header_token_def with_header_def demo_env_def demo_verify_garbage)
  from token_service [of 100 0 demo_mac 7 1 "[]" 0 1 0 86400 "Corrupt []" "with_header ''Bearer abc''" demo_env]
  have a: "verify demo_mac 7 100 (issue demo_mac 7 0 1) = Valid 1"
    and c: "verify demo_mac 7 100 (Token 1 0 86400 0) = Invalid"
    and d: "verifyToken demo_env (with_header ''Bearer abc'') =
       Inl \<lparr>status = 400, body = JObj [(''message'', JStr ''Invalid Token'')]\<rparr>"
    using life sg hd by simp_all
  from token_service [of 86401 0 demo_mac 7 1 "[]" 0 1 0 86400 "Corrupt []" "with_header ''Bearer abc''" demo_env]
  have b: "verify demo_mac 7 86401 (issue demo_mac 7 0 1) = Invalid"
    using life by simp
  from a b c d sg life show ?thesis by simp
qed

end
